theory Spec2Isabelle
  imports Main
begin

section \<open>The ingestion route \<open>src/app/api/send/route.ts\<close>\<close>

text \<open>
  The route is one asynchronous function, \<open>POST\<close>. Everything it imports (the bot
  classifier, the schema validator, the token codec, the stores, the client-info resolver,
  the block list, the id hash, the URI decoder, the URL parser, the clock, the process
  environment and the constant table \<open>COLLECTION_TYPE\<close>) lives outside the file; these
  collaborators are the fields of the record \<open>env\<close> below, and the model is a function of
  them. Every call to a collaborator is appended to a trace, so that "was never called" is
  a statement about the trace.

  JavaScript strings are modelled as \<open>string\<close>, one \<open>char\<close> per code unit in the range
  0 to 255. \<open>undefined\<close> is \<open>None\<close>.
\<close>

subsection \<open>JavaScript string primitives used by the route\<close>

text \<open>Truthiness of a possibly undefined string: \<open>undefined\<close> and \<open>''\<close> are falsy.\<close>

fun truthy :: "string option \<Rightarrow> bool" where
  "truthy None = False"
| "truthy (Some s) = (s \<noteq> [])"

text \<open>\<open>ToString\<close> of a possibly undefined string, as \<open>RegExp.test\<close> and \<open>new URL\<close> apply it.\<close>

fun js_string :: "string option \<Rightarrow> string" where
  "js_string None = ''undefined''"
| "js_string (Some s) = s"

fun starts_with :: "string \<Rightarrow> string \<Rightarrow> bool" where
  "starts_with s [] = True"
| "starts_with [] (p # ps) = False"
| "starts_with (c # cs) (p # ps) = (c = p \<and> starts_with cs ps)"

text \<open>\<open>s.includes(pat)\<close>: \<open>pat\<close> occurs somewhere in \<open>s\<close>.\<close>

fun includes_str :: "string \<Rightarrow> string \<Rightarrow> bool" where
  "includes_str [] pat = (pat = [])"
| "includes_str (c # cs) pat = (starts_with (c # cs) pat \<or> includes_str cs pat)"

text \<open>
  \<open>toLowerCase\<close> on code units below 256: the letters A to Z, and the Latin-1 capitals
  0xC0 to 0xDE without the multiplication sign 0xD7, move up by 32.
\<close>

definition to_lower :: "char \<Rightarrow> char" where
  "to_lower c =
     (let n = (of_char c :: nat)
      in if (65 \<le> n \<and> n \<le> 90) \<or> (192 \<le> n \<and> n \<le> 222 \<and> n \<noteq> 215)
         then char_of (n + 32) else c)"

definition toLowerCase :: "string \<Rightarrow> string" where
  "toLowerCase s = map to_lower s"

text \<open>
  \<open>s.split(sep)\<close> for a one-character separator: cuts at every occurrence; the result is
  never the empty array (\<open>''.split('?')\<close> is \<open>['']\<close>).
\<close>

fun split_str :: "char \<Rightarrow> string \<Rightarrow> string list" where
  "split_str sep [] = [[]]"
| "split_str sep (c # cs) =
     (if c = sep then [] # split_str sep cs
      else (case split_str sep cs of
              [] \<Rightarrow> [[c]]
            | x # xs \<Rightarrow> (c # x) # xs))"

text \<open>Array destructuring \<open>[a, b] = arr\<close>: a missing element is \<open>undefined\<close>.\<close>

fun element :: "'a list \<Rightarrow> nat \<Rightarrow> 'a option" where
  "element [] n = None"
| "element (x # xs) 0 = Some x"
| "element (x # xs) (Suc n) = element xs n"

text \<open>The regular-expression class \<open>\w\<close> (no flags): ASCII letters, digits, underscore.\<close>

definition word_char :: "char \<Rightarrow> bool" where
  "word_char c =
     (c \<in> set ''abcdefghijklmnopqrstuvwxyzABCDEFGHIJKLMNOPQRSTUVWXYZ0123456789_'')"

text \<open>
  \<open>/^[\w-]+:\/\/\w+/.test(s)\<close>. The class \<open>[\w-]\<close> does not contain the colon, so the
  only run of \<open>[\w-]+\<close> that can be followed by \<open>://\<close> is the longest one at the start
  of \<open>s\<close>; after \<open>://\<close> one word character is enough for \<open>\w+\<close>.
\<close>

definition absolute_url_test :: "string \<Rightarrow> bool" where
  "absolute_url_test s =
     (let scheme = takeWhile (\<lambda>c. word_char c \<or> c = CHR ''-'') s;
          rest = dropWhile (\<lambda>c. word_char c \<or> c = CHR ''-'') s
      in scheme \<noteq> [] \<and> starts_with rest ''://'' \<and>
         (case drop 3 rest of [] \<Rightarrow> False | c # _ \<Rightarrow> word_char c))"

text \<open>
  \<open>s.replace(/www\./, '')\<close>: the expression is neither anchored nor global, so the
  leftmost occurrence of \<open>www.\<close> is removed, wherever it is.
\<close>

fun replace_www :: "string \<Rightarrow> string" where
  "replace_www [] = []"
| "replace_www (c # cs) =
     (if starts_with (c # cs) ''www.'' then drop 4 (c # cs) else c # replace_www cs)"

text \<open>
  Line terminators, which the regular-expression dot does not match (U+2028 and U+2029
  lie outside the modelled code units).
\<close>

definition line_terminator :: "char \<Rightarrow> bool" where
  "line_terminator c = (c = CHR 0x0A \<or> c = CHR 0x0D)"

text \<open>
  \<open>/(.+)\/$/\<close> matches at the start of \<open>r\<close> when \<open>r\<close> is one or more characters that
  are not line terminators, then a slash, then the end of the input.
\<close>

definition slash_match_here :: "string \<Rightarrow> bool" where
  "slash_match_here r =
     (2 \<le> length r \<and> last r = CHR ''/'' \<and> (\<forall>c \<in> set (butlast r). \<not> line_terminator c))"

text \<open>
  \<open>s.replace(/(.+)\/$/, '$1')\<close>: the leftmost match is replaced by its group, that is,
  by the match without its final slash; without a match the string is returned as it is.
\<close>

fun replace_trailing_slash :: "string \<Rightarrow> string" where
  "replace_trailing_slash [] = []"
| "replace_trailing_slash (c # cs) =
     (if slash_match_here (c # cs) then butlast (c # cs)
      else c # replace_trailing_slash cs)"

subsection \<open>Data\<close>

datatype json =
    JNull | JBool bool | JNumber int | JString string
  | JArray "json list" | JObject "(string \<times> json) list"

type_synonym json_object = "(string \<times> json) list"

text \<open>The payload accepted by the schema of lines 20 to 36; optional fields are options.\<close>

record payload =
  p_website :: string
  p_data :: "json_object option"
  p_hostname :: "string option"
  p_language :: "string option"
  p_referrer :: "string option"
  p_screen :: "string option"
  p_title :: "string option"
  p_url :: "string option"
  p_name :: "string option"
  p_tag :: "string option"
  p_ip :: "string option"
  p_userAgent :: "string option"

record body =
  b_type :: string
  b_payload :: payload

record request =
  user_agent :: "string option"
  x_umami_cache :: "string option"
  raw_body :: string

text \<open>The claims of a continuation token (the \<open>cache\<close> of line 60).\<close>

record cache =
  c_websiteId :: string
  c_sessionId :: string
  c_visitId :: string
  c_iat :: int

record client_info =
  ci_ip :: "string option"
  ci_userAgent :: "string option"
  ci_device :: "string option"
  ci_browser :: "string option"
  ci_os :: "string option"
  ci_country :: "string option"
  ci_subdivision1 :: "string option"
  ci_subdivision2 :: "string option"
  ci_city :: "string option"

text \<open>The argument of \<open>createSession\<close> (lines 98 to 111).\<close>

record session =
  s_id :: string
  s_websiteId :: string
  s_hostname :: "string option"
  s_browser :: "string option"
  s_os :: "string option"
  s_device :: "string option"
  s_screen :: "string option"
  s_language :: "string option"
  s_country :: "string option"
  s_subdivision1 :: "string option"
  s_subdivision2 :: "string option"
  s_city :: "string option"

text \<open>The argument of \<open>saveEvent\<close> (lines 152 to 175).\<close>

record event =
  e_websiteId :: string
  e_sessionId :: string
  e_visitId :: string
  e_urlPath :: string
  e_urlQuery :: "string option"
  e_referrerPath :: "string option"
  e_referrerQuery :: "string option"
  e_referrerDomain :: string
  e_pageTitle :: "string option"
  e_eventName :: "string option"
  e_eventData :: "json_object option"
  e_hostname :: "string option"
  e_browser :: "string option"
  e_os :: "string option"
  e_device :: "string option"
  e_screen :: "string option"
  e_language :: "string option"
  e_country :: "string option"
  e_subdivision1 :: "string option"
  e_subdivision2 :: "string option"
  e_city :: "string option"
  e_tag :: "string option"

text \<open>The argument of \<open>saveSessionData\<close> (lines 183 to 187).\<close>

record session_data =
  d_websiteId :: string
  d_sessionId :: string
  d_sessionData :: json_object

text \<open>What \<open>new URL(s)\<close> exposes to the route.\<close>

record url_parts =
  pathname :: string
  search :: string
  hostname :: string

text \<open>The five values the event branch computes from url and referrer.\<close>

record normalized =
  urlPath :: string
  urlQuery :: "string option"
  referrerPath :: "string option"
  referrerQuery :: "string option"
  referrerDomain :: string

text \<open>
  A thrown JavaScript error, with its message (line 113 reads \<open>e.message\<close> as a string).
\<close>

datatype js_error = JsError (message: string)

datatype response =
    Json_beep_boop
  | Json_cache string
  | BadRequest string
  | Forbidden
  | ServerError js_error
  | Schema_error string

text \<open>A request ends with a response, or with an exception nobody caught.\<close>

datatype outcome = Returned response | Thrown js_error

record collection_type =
  ct_event :: string
  ct_identify :: string

datatype call =
    Call_isbot "string option"
  | Call_parseRequest
  | Call_parseToken string
  | Call_fetchWebsite string
  | Call_getClientInfo
  | Call_hasBlockedIp "string option"
  | Call_fetchSession string string
  | Call_createSession session
  | Call_saveEvent event
  | Call_saveSessionData session_data
  | Call_createToken cache

text \<open>
  The collaborators. A store write returns \<open>None\<close> when it succeeds and the error it
  throws otherwise; \<open>new_URL\<close> returns \<open>None\<close> where the constructor throws its
  \<open>TypeError\<close>; \<open>parseRequest\<close> returns the error response or the validated body;
  \<open>now_ms\<close> is \<open>new Date().getTime()\<close>. \<open>COLLECTION_TYPE\<close> is the constant table of
  \<open>lib/constants\<close>, whose two strings the route compares the beacon type with.
\<close>

record env =
  DISABLE_BOT_CHECK :: "string option"
  REMOVE_TRAILING_SLASH :: "string option"
  COLLECTION_TYPE :: collection_type
  clickhouse_enabled :: bool
  secret :: string
  visitSalt :: string
  now_ms :: int
  isbot :: "string option \<Rightarrow> bool"
  parseRequest :: "request \<Rightarrow> response + body"
  parseToken :: "string \<Rightarrow> string \<Rightarrow> cache option"
  createToken :: "cache \<Rightarrow> string \<Rightarrow> string"
  fetchWebsite :: "string \<Rightarrow> bool"
  getClientInfo :: "request \<Rightarrow> payload \<Rightarrow> client_info"
  hasBlockedIp :: "string option \<Rightarrow> bool"
  uuid :: "string option list \<Rightarrow> string"
  fetchSession :: "string \<Rightarrow> string \<Rightarrow> bool"
  createSession :: "session \<Rightarrow> js_error option"
  saveEvent :: "event \<Rightarrow> js_error option"
  saveSessionData :: "session_data \<Rightarrow> js_error option"
  safeDecodeURI :: "string option \<Rightarrow> string option"
  new_URL :: "string \<Rightarrow> url_parts option"

subsection \<open>URL and referrer normalisation (lines 133 to 150)\<close>

text \<open>Lines 133 and 134: \<open>safeDecodeURI(x)?.split('?') || []\<close>.\<close>

definition decoded_parts :: "env \<Rightarrow> string option \<Rightarrow> string list" where
  "decoded_parts env x =
     (case safeDecodeURI env x of None \<Rightarrow> [] | Some s \<Rightarrow> split_str (CHR ''?'') s)"

definition normalize_url :: "env \<Rightarrow> string option \<Rightarrow> string option \<Rightarrow> js_error + normalized" where
  "normalize_url env url referrer =
     (let urlPath0 = element (decoded_parts env url) 0;
          urlQuery0 = element (decoded_parts env url) 1;
          referrerPath0 = element (decoded_parts env referrer) 0;
          referrerQuery0 = element (decoded_parts env referrer) 1;
          urlPath1 = (case urlPath0 of
                        None \<Rightarrow> ''/''
                      | Some p \<Rightarrow> if p = [] then ''/'' else p);
          urlPath2 = (if truthy (REMOVE_TRAILING_SLASH env)
                      then replace_trailing_slash urlPath1 else urlPath1)
      in if absolute_url_test (js_string referrerPath0)
         then (case new_URL env (js_string referrer) of
                 None \<Rightarrow> Inl (JsError ''Invalid URL'')
               | Some refUrl \<Rightarrow>
                   Inr \<lparr>urlPath = urlPath2, urlQuery = urlQuery0,
                        referrerPath = Some (pathname refUrl),
                        referrerQuery = Some (drop 1 (search refUrl)),
                        referrerDomain = replace_www (hostname refUrl)\<rparr>)
         else Inr \<lparr>urlPath = urlPath2, urlQuery = urlQuery0,
                   referrerPath = referrerPath0, referrerQuery = referrerQuery0,
                   referrerDomain = []\<rparr>)"

subsection \<open>Visit window (lines 121 to 129)\<close>

definition fresh_visitId :: "env \<Rightarrow> string \<Rightarrow> string" where
  "fresh_visitId env sessionId = uuid env [Some sessionId, Some (visitSalt env)]"

definition visit_info :: "env \<Rightarrow> cache option \<Rightarrow> string \<Rightarrow> int \<Rightarrow> string \<times> int" where
  "visit_info env cache sessionId now =
     (let visitId = (case cache of
                       None \<Rightarrow> fresh_visitId env sessionId
                     | Some c \<Rightarrow> if c_visitId c \<noteq> [] then c_visitId c
                                else fresh_visitId env sessionId);
          iat = (case cache of
                   None \<Rightarrow> now
                 | Some c \<Rightarrow> if c_iat c \<noteq> 0 then c_iat c else now)
      in if now - iat > 1800 then (fresh_visitId env sessionId, now) else (visitId, iat))"

subsection \<open>The request handler\<close>

text \<open>Optional chaining on the cache: \<open>cache?.field\<close>.\<close>

definition cache_field :: "(cache \<Rightarrow> string) \<Rightarrow> cache option \<Rightarrow> string option" where
  "cache_field f cache = (case cache of None \<Rightarrow> None | Some c \<Rightarrow> Some (f c))"

text \<open>Lines 190 to 192: the new token and the success response.\<close>

definition issue_token ::
  "env \<Rightarrow> body \<Rightarrow> string \<Rightarrow> string \<Rightarrow> int \<Rightarrow> call list \<Rightarrow> call list \<times> outcome" where
  "issue_token env b sessionId visitId iat tr =
     (let claims = \<lparr>c_websiteId = p_website (b_payload b), c_sessionId = sessionId,
                     c_visitId = visitId, c_iat = iat\<rparr>
      in (tr @ [Call_createToken claims],
          Returned (Json_cache (createToken env claims (secret env)))))"

text \<open>Lines 178 to 188: the identify branch. An object is truthy, also the empty one.\<close>

definition identify_branch ::
  "env \<Rightarrow> body \<Rightarrow> string \<Rightarrow> string \<Rightarrow> int \<Rightarrow> call list \<Rightarrow> call list \<times> outcome" where
  "identify_branch env b sessionId visitId iat tr =
     (if b_type b = ct_identify (COLLECTION_TYPE env)
      then (case p_data (b_payload b) of
              None \<Rightarrow> (tr, Returned (BadRequest ''Data required.''))
            | Some d \<Rightarrow>
                (let sd = \<lparr>d_websiteId = p_website (b_payload b), d_sessionId = sessionId,
                           d_sessionData = d\<rparr>
                 in case saveSessionData env sd of
                      Some err \<Rightarrow> (tr @ [Call_saveSessionData sd], Thrown err)
                    | None \<Rightarrow>
                        issue_token env b sessionId visitId iat
                          (tr @ [Call_saveSessionData sd])))
      else issue_token env b sessionId visitId iat tr)"

text \<open>Lines 152 to 175: the record handed to \<open>saveEvent\<close>.\<close>

definition new_event ::
  "body \<Rightarrow> client_info \<Rightarrow> string \<Rightarrow> string \<Rightarrow> normalized \<Rightarrow> event" where
  "new_event b ci sessionId visitId n =
     \<lparr>e_websiteId = p_website (b_payload b),
      e_sessionId = sessionId,
      e_visitId = visitId,
      e_urlPath = urlPath n,
      e_urlQuery = urlQuery n,
      e_referrerPath = referrerPath n,
      e_referrerQuery = referrerQuery n,
      e_referrerDomain = referrerDomain n,
      e_pageTitle = p_title (b_payload b),
      e_eventName = p_name (b_payload b),
      e_eventData = p_data (b_payload b),
      e_hostname = p_hostname (b_payload b),
      e_browser = ci_browser ci,
      e_os = ci_os ci,
      e_device = ci_device ci,
      e_screen = p_screen (b_payload b),
      e_language = p_language (b_payload b),
      e_country = ci_country ci,
      e_subdivision1 = ci_subdivision1 ci,
      e_subdivision2 = ci_subdivision2 ci,
      e_city = ci_city ci,
      e_tag = p_tag (b_payload b)\<rparr>"

text \<open>Lines 131 to 176: the event branch.\<close>

definition event_branch ::
  "env \<Rightarrow> body \<Rightarrow> client_info \<Rightarrow> string \<Rightarrow> string \<Rightarrow> int \<Rightarrow> call list
     \<Rightarrow> call list \<times> outcome" where
  "event_branch env b ci sessionId visitId iat tr =
     (if b_type b = ct_event (COLLECTION_TYPE env)
      then (case normalize_url env (p_url (b_payload b)) (p_referrer (b_payload b)) of
              Inl err \<Rightarrow> (tr, Thrown err)
            | Inr n \<Rightarrow>
                (let ev = new_event b ci sessionId visitId n
                 in case saveEvent env ev of
                      Some err \<Rightarrow> (tr @ [Call_saveEvent ev], Thrown err)
                    | None \<Rightarrow>
                        identify_branch env b sessionId visitId iat
                          (tr @ [Call_saveEvent ev])))
      else identify_branch env b sessionId visitId iat tr)"

text \<open>Lines 120 to 129, then the two branches.\<close>

definition visit_stage ::
  "env \<Rightarrow> body \<Rightarrow> cache option \<Rightarrow> client_info \<Rightarrow> string \<Rightarrow> call list
     \<Rightarrow> call list \<times> outcome" where
  "visit_stage env b cache ci sessionId tr =
     (let now = now_ms env div 1000;
          v = visit_info env cache sessionId now
      in event_branch env b ci sessionId (fst v) (snd v) tr)"

text \<open>The test of line 113 on the error caught from \<open>createSession\<close>.\<close>

definition unique_constraint :: "js_error \<Rightarrow> bool" where
  "unique_constraint err = includes_str (toLowerCase (message err)) ''unique constraint''"

text \<open>Line 89: the session id of this request.\<close>

definition derive_sessionId :: "env \<Rightarrow> body \<Rightarrow> client_info \<Rightarrow> string" where
  "derive_sessionId env b ci =
     uuid env [Some (p_website (b_payload b)), p_hostname (b_payload b),
               ci_ip ci, ci_userAgent ci]"

text \<open>Lines 98 to 111: the record handed to \<open>createSession\<close>.\<close>

definition new_session :: "body \<Rightarrow> client_info \<Rightarrow> string \<Rightarrow> session" where
  "new_session b ci sessionId =
     \<lparr>s_id = sessionId,
      s_websiteId = p_website (b_payload b),
      s_hostname = p_hostname (b_payload b),
      s_browser = ci_browser ci,
      s_os = ci_os ci,
      s_device = ci_device ci,
      s_screen = p_screen (b_payload b),
      s_language = p_language (b_payload b),
      s_country = ci_country ci,
      s_subdivision1 = ci_subdivision1 ci,
      s_subdivision2 = ci_subdivision2 ci,
      s_city = ci_city ci\<rparr>"

text \<open>Lines 89 to 118: find the session, create it when it is missing.\<close>

definition find_session ::
  "env \<Rightarrow> body \<Rightarrow> cache option \<Rightarrow> client_info \<Rightarrow> call list \<Rightarrow> call list \<times> outcome" where
  "find_session env b cache ci tr =
     (let websiteId = p_website (b_payload b);
          sessionId = derive_sessionId env b ci
      in if \<not> truthy (cache_field c_sessionId cache)
         then (let tr1 = tr @ [Call_fetchSession websiteId sessionId]
               in if \<not> fetchSession env websiteId sessionId \<and> \<not> clickhouse_enabled env
                  then (let s = new_session b ci sessionId;
                            tr2 = tr1 @ [Call_createSession s]
                        in case createSession env s of
                             None \<Rightarrow> visit_stage env b cache ci sessionId tr2
                           | Some err \<Rightarrow>
                               if \<not> unique_constraint err
                               then (tr2, Returned (ServerError err))
                               else visit_stage env b cache ci sessionId tr2)
                  else visit_stage env b cache ci sessionId tr1)
         else visit_stage env b cache ci sessionId tr)"

text \<open>Lines 80 to 87: client info and the block list.\<close>

definition ip_block ::
  "env \<Rightarrow> request \<Rightarrow> body \<Rightarrow> cache option \<Rightarrow> call list \<Rightarrow> call list \<times> outcome" where
  "ip_block env req b cache tr =
     (let ci = getClientInfo env req (b_payload b);
          tr1 = tr @ [Call_getClientInfo, Call_hasBlockedIp (ci_ip ci)]
      in if hasBlockedIp env (ci_ip ci) then (tr1, Returned Forbidden)
         else find_session env b cache ci tr1)"

text \<open>Lines 71 to 78: the website lookup, skipped when the cache names a website.\<close>

definition find_website ::
  "env \<Rightarrow> request \<Rightarrow> body \<Rightarrow> cache option \<Rightarrow> call list \<Rightarrow> call list \<times> outcome" where
  "find_website env req b cache tr =
     (if \<not> truthy (cache_field c_websiteId cache)
      then (let tr1 = tr @ [Call_fetchWebsite (p_website (b_payload b))]
            in if \<not> fetchWebsite env (p_website (b_payload b))
               then (tr1, Returned (BadRequest ''Website not found.''))
               else ip_block env req b cache tr1)
      else ip_block env req b cache tr)"

text \<open>Lines 59 to 69: the cache, and the call made to decode it.\<close>

definition cache_check :: "env \<Rightarrow> request \<Rightarrow> cache option \<times> call list" where
  "cache_check env req =
     (case x_umami_cache req of
        None \<Rightarrow> (None, [])
      | Some h \<Rightarrow> if h = [] then (None, [])
                  else (parseToken env h (secret env), [Call_parseToken h]))"

text \<open>
  Lines 14 to 57: the bot check (\<open>isbot\<close> is not called when the check is disabled),
  then the validation of the body.
\<close>

definition POST :: "env \<Rightarrow> request \<Rightarrow> call list \<times> outcome" where
  "POST env req =
     (let bot_check = \<not> truthy (DISABLE_BOT_CHECK env);
          tr0 = (if bot_check then [Call_isbot (user_agent req)] else [])
      in if bot_check \<and> isbot env (user_agent req)
         then (tr0, Returned Json_beep_boop)
         else (case parseRequest env req of
                 Inl err \<Rightarrow> (tr0 @ [Call_parseRequest], Returned err)
               | Inr b \<Rightarrow>
                   find_website env req b (fst (cache_check env req))
                     (tr0 @ [Call_parseRequest] @ snd (cache_check env req))))"

subsection \<open>Properties of traces\<close>

text \<open>The calls that write to a store, and among them those that write a record.\<close>

fun store_write :: "call \<Rightarrow> bool" where
  "store_write (Call_createSession s) = True"
| "store_write (Call_saveEvent ev) = True"
| "store_write (Call_saveSessionData sd) = True"
| "store_write c = False"

fun record_write :: "call \<Rightarrow> bool" where
  "record_write (Call_saveEvent ev) = True"
| "record_write (Call_saveSessionData sd) = True"
| "record_write c = False"

text \<open>
  What a call of the handler may carry, for a body \<open>b\<close>, a session id \<open>s\<close>, a visit
  id \<open>v\<close> and an issue time \<open>t\<close>: the ids of every write and of the token, and for
  a session-data write the data of the payload.
\<close>

fun stamped :: "body \<Rightarrow> string \<Rightarrow> string \<Rightarrow> int \<Rightarrow> call \<Rightarrow> bool" where
  "stamped b s v t (Call_saveEvent ev) =
     (e_websiteId ev = p_website (b_payload b) \<and> e_sessionId ev = s \<and> e_visitId ev = v)"
| "stamped b s v t (Call_saveSessionData sd) =
     (d_websiteId sd = p_website (b_payload b) \<and> d_sessionId sd = s \<and>
      p_data (b_payload b) = Some (d_sessionData sd))"
| "stamped b s v t (Call_createToken cl) =
     (cl = \<lparr>c_websiteId = p_website (b_payload b), c_sessionId = s,
             c_visitId = v, c_iat = t\<rparr>)"
| "stamped b s v t (Call_createSession se) =
     (s_websiteId se = p_website (b_payload b) \<and> s_id se = s)"
| "stamped b s v t c = True"

text \<open>
  Two decoded caches that the handler cannot tell apart: the same visit id and issue
  time, and website and session ids that are empty in both or in neither.
\<close>

definition same_visit :: "cache \<Rightarrow> cache \<Rightarrow> bool" where
  "same_visit c c' =
     (c_visitId c' = c_visitId c \<and> c_iat c' = c_iat c \<and>
      (c_websiteId c' = [] \<longleftrightarrow> c_websiteId c = []) \<and>
      (c_sessionId c' = [] \<longleftrightarrow> c_sessionId c = []))"

subsection \<open>A concrete environment\<close>

text \<open>
  One instance of the collaborators, for evaluating the model: the identity for the URI
  decoder (right on strings without a percent sign), a table of three parsed URLs for the
  URL parser, a concatenation for the id hash, stores that accept every write, one token
  that decodes to a cache issued 1000 seconds before the clock's time.
  \<open>COLLECTION_TYPE\<close> is not part of the file; its \<open>identify\<close> entry is taken to be the
  string that the schema of line 21 admits next to \<open>event\<close>.
\<close>

definition demo_client :: client_info where
  "demo_client =
     \<lparr>ci_ip = Some ''203.0.113.7'', ci_userAgent = Some ''Mozilla/5.0'',
      ci_device = Some ''desktop'', ci_browser = Some ''firefox'', ci_os = Some ''Linux'',
      ci_country = Some ''CH'', ci_subdivision1 = None, ci_subdivision2 = None,
      ci_city = None\<rparr>"

definition demo_payload :: payload where
  "demo_payload =
     \<lparr>p_website = ''site-1'', p_data = None, p_hostname = Some ''example.org'',
      p_language = Some ''en'', p_referrer = None, p_screen = Some ''1920x1080'',
      p_title = Some ''Home'', p_url = Some ''/foo/bar?x=1'', p_name = None, p_tag = None,
      p_ip = None, p_userAgent = None\<rparr>"

definition demo_event :: body where
  "demo_event = \<lparr>b_type = ''event'', b_payload = demo_payload\<rparr>"

definition demo_bad_referrer :: body where
  "demo_bad_referrer =
     \<lparr>b_type = ''event'', b_payload = demo_payload\<lparr>p_referrer := Some ''http://a b/''\<rparr>\<rparr>"

definition demo_identity :: "json_object option \<Rightarrow> body" where
  "demo_identity d = \<lparr>b_type = ''identity'', b_payload = demo_payload\<lparr>p_data := d\<rparr>\<rparr>"

definition demo_request :: request where
  "demo_request =
     \<lparr>user_agent = Some ''Mozilla/5.0'', x_umami_cache = None, raw_body = []\<rparr>"

definition demo_cache :: cache where
  "demo_cache =
     \<lparr>c_websiteId = ''site-0'', c_sessionId = ''session-0'', c_visitId = ''visit-0'',
      c_iat = 1699999000\<rparr>"

definition demo_URL :: "string \<Rightarrow> url_parts option" where
  "demo_URL s =
     (if s = ''https://www.example.com/page?ref=a''
      then Some \<lparr>pathname = ''/page'', search = ''?ref=a'', hostname = ''www.example.com''\<rparr>
      else if s = ''https://awww.example.com/''
      then Some \<lparr>pathname = ''/'', search = [], hostname = ''awww.example.com''\<rparr>
      else if s = ''https://blog.www.example.com/''
      then Some \<lparr>pathname = ''/'', search = [], hostname = ''blog.www.example.com''\<rparr>
      else None)"

definition demo_env :: "body \<Rightarrow> env" where
  "demo_env b =
     \<lparr>DISABLE_BOT_CHECK = None,
      REMOVE_TRAILING_SLASH = Some ''1'',
      COLLECTION_TYPE = \<lparr>ct_event = ''event'', ct_identify = ''identity''\<rparr>,
      clickhouse_enabled = False,
      secret = ''key'',
      visitSalt = ''salt'',
      now_ms = 1700000000999,
      isbot = (\<lambda>ua. ua = Some ''Googlebot''),
      parseRequest = (\<lambda>r. Inr b),
      parseToken = (\<lambda>token key. if token = ''token'' then Some demo_cache else None),
      createToken = (\<lambda>claims key. c_visitId claims),
      fetchWebsite = (\<lambda>w. True),
      getClientInfo = (\<lambda>r p. demo_client),
      hasBlockedIp = (\<lambda>a. a = Some ''198.51.100.1''),
      uuid = (\<lambda>xs. concat (map js_string xs)),
      fetchSession = (\<lambda>w s. False),
      createSession = (\<lambda>s. None),
      saveEvent = (\<lambda>ev. None),
      saveSessionData = (\<lambda>sd. None),
      safeDecodeURI = (\<lambda>x. x),
      new_URL = demo_URL\<rparr>"

section \<open>Lemmas\<close>

subsection \<open>The trailing-slash replacement in closed form\<close>

lemma slash_match_here_butlast:
  "slash_match_here r \<Longrightarrow> 2 \<le> length r \<and> last r = CHR ''/'' \<and> \<not> line_terminator (last (butlast r))"
  unfolding slash_match_here_def
  by (cases r rule: rev_cases; cases "butlast r" rule: rev_cases) (auto simp: butlast_append)

lemma slash_match_here_two: "slash_match_here [c, d] = (d = CHR ''/'' \<and> \<not> line_terminator c)"
  by (auto simp: slash_match_here_def)

lemma replace_trailing_slash_eq:
  "replace_trailing_slash s =
     (if 2 \<le> length s \<and> last s = CHR ''/'' \<and> \<not> line_terminator (last (butlast s))
      then butlast s else s)"
proof (induction s)
  case Nil
  show ?case by simp
next
  case (Cons c cs)
  show ?case
  proof (cases "slash_match_here (c # cs)")
    case True
    from slash_match_here_butlast [OF True] True show ?thesis by simp
  next
    case False
    show ?thesis
    proof (cases cs)
      case Nil
      then show ?thesis by (simp add: slash_match_here_def)
    next
      case (Cons d ds)
      show ?thesis
      proof (cases ds)
        case Nil
        with Cons False show ?thesis by (simp add: slash_match_here_def)
      next
        case (Cons e es)
        with \<open>cs = d # ds\<close> False Cons.IH show ?thesis by simp
      qed
    qed
  qed
qed

subsection \<open>Splitting and the pattern test\<close>

lemma split_str_nonempty: "split_str sep s \<noteq> []"
  by (induction s) (auto split: list.split)

lemma split_str_no_sep: "sep \<notin> set s \<Longrightarrow> split_str sep s = [s]"
  by (induction s) auto

lemma replace_trailing_slash_nonempty: "p \<noteq> [] \<Longrightarrow> replace_trailing_slash p \<noteq> []"
  by (cases p; cases "tl p") (auto simp: replace_trailing_slash_eq)

lemma absolute_url_test_undefined: "\<not> absolute_url_test ''undefined''"
  by (simp add: absolute_url_test_def word_char_def)

subsection \<open>When the normalisation returns\<close>

text \<open>
  Apart from the call of the URL parser, nothing in the normalisation can throw. When it
  returns, \<open>urlPath\<close> is a non-empty string (\<open>/\<close> for an absent or empty url), while
  \<open>urlQuery\<close>, \<open>referrerPath\<close> and \<open>referrerQuery\<close> stay undefined where the input is
  absent or has no question mark.
\<close>

lemma normalize_url_returns:
  assumes "\<not> absolute_url_test (js_string (element (decoded_parts env referrer) 0))
             \<or> new_URL env (js_string referrer) \<noteq> None"
  shows "\<exists>n. normalize_url env url referrer = Inr n
           \<and> urlPath n \<noteq> []
           \<and> (safeDecodeURI env url = None \<longrightarrow> urlPath n = ''/'' \<and> urlQuery n = None)
           \<and> (safeDecodeURI env url = Some [] \<longrightarrow> urlPath n = ''/'' \<and> urlQuery n = None)
           \<and> (\<forall>s. safeDecodeURI env url = Some s \<and> CHR ''?'' \<notin> set s \<longrightarrow> urlQuery n = None)
           \<and> (safeDecodeURI env referrer = None \<longrightarrow>
                 referrerPath n = None \<and> referrerQuery n = None \<and> referrerDomain n = [])"
proof -
  define p1 where "p1 = (case element (decoded_parts env url) 0 of
                           None \<Rightarrow> ''/'' | Some p \<Rightarrow> if p = [] then ''/'' else p)"
  define p2 where "p2 = (if truthy (REMOVE_TRAILING_SLASH env)
                         then replace_trailing_slash p1 else p1)"
  have p1: "p1 \<noteq> []" by (simp add: p1_def split: option.split)
  then have p2: "p2 \<noteq> []" by (simp add: p2_def replace_trailing_slash_nonempty)
  have root: "p2 = ''/''" if "safeDecodeURI env url = None"
    using that by (simp add: p2_def p1_def decoded_parts_def slash_match_here_def)
  have empty: "p2 = ''/''" if "safeDecodeURI env url = Some []"
    using that by (simp add: p2_def p1_def decoded_parts_def slash_match_here_def)
  have q0: "element (decoded_parts env url) 1 = None" if "safeDecodeURI env url = None"
    using that by (simp add: decoded_parts_def)
  have q1: "element (decoded_parts env url) 1 = None"
    if "safeDecodeURI env url = Some s \<and> CHR ''?'' \<notin> set s" for s
    using that by (simp add: decoded_parts_def split_str_no_sep)
  have q2: "element (decoded_parts env url) 1 = None" if "safeDecodeURI env url = Some []"
    using that by (simp add: decoded_parts_def)
  have r0: "element (decoded_parts env referrer) 0 = None \<and> element (decoded_parts env referrer) 1 = None"
    if "safeDecodeURI env referrer = None"
    using that by (simp add: decoded_parts_def)
  show ?thesis
  proof (cases "absolute_url_test (js_string (element (decoded_parts env referrer) 0))")
    case False
    then have "normalize_url env url referrer
        = Inr \<lparr>urlPath = p2, urlQuery = element (decoded_parts env url) 1,
               referrerPath = element (decoded_parts env referrer) 0,
               referrerQuery = element (decoded_parts env referrer) 1, referrerDomain = []\<rparr>"
      by (simp add: normalize_url_def Let_def p1_def p2_def)
    with p2 root empty q0 q1 q2 r0 show ?thesis by auto
  next
    case True
    with assms obtain u where u: "new_URL env (js_string referrer) = Some u" by auto
    have nr: "safeDecodeURI env referrer \<noteq> None"
    proof
      assume "safeDecodeURI env referrer = None"
      then have "js_string (element (decoded_parts env referrer) 0) = ''undefined''"
        by (simp add: decoded_parts_def)
      with True absolute_url_test_undefined show False by simp
    qed
    from True u have "normalize_url env url referrer
        = Inr \<lparr>urlPath = p2, urlQuery = element (decoded_parts env url) 1,
               referrerPath = Some (pathname u), referrerQuery = Some (drop 1 (search u)),
               referrerDomain = replace_www (hostname u)\<rparr>"
      by (simp add: normalize_url_def Let_def p1_def p2_def)
    with p2 root empty q0 q1 q2 nr show ?thesis by auto
  qed
qed

subsection \<open>What the handler may call\<close>

text \<open>
  Every stage only appends to the trace, and what it appends carries the website id of the
  payload, the session id derived on this request and the visit of \<open>visit_info\<close>.
\<close>

lemma issue_token_stamped:
  "\<forall>c \<in> set tr. stamped b s v t c \<Longrightarrow> \<forall>c \<in> set (fst (issue_token env b s v t tr)). stamped b s v t c"
  by (simp add: issue_token_def Let_def)

lemma identify_branch_stamped:
  assumes "\<forall>c \<in> set tr. stamped b s v t c"
  shows "\<forall>c \<in> set (fst (identify_branch env b s v t tr)). stamped b s v t c"
proof (cases "b_type b = ct_identify (COLLECTION_TYPE env)")
  case False
  then show ?thesis using issue_token_stamped [OF assms] by (simp add: identify_branch_def)
next
  case True
  show ?thesis
  proof (cases "p_data (b_payload b)")
    case None
    with True assms show ?thesis by (simp add: identify_branch_def)
  next
    case (Some d)
    let ?sd = "\<lparr>d_websiteId = p_website (b_payload b), d_sessionId = s, d_sessionData = d\<rparr>"
    have ext: "\<forall>c \<in> set (tr @ [Call_saveSessionData ?sd]). stamped b s v t c"
      using assms Some by simp
    show ?thesis
    proof (cases "saveSessionData env ?sd")
      case None
      with True Some issue_token_stamped [OF ext] show ?thesis
        by (simp add: identify_branch_def Let_def)
    next
      case (Some err)
      with True \<open>p_data (b_payload b) = Some d\<close> ext show ?thesis
        by (simp add: identify_branch_def Let_def)
    qed
  qed
qed


lemma event_branch_stamped:
  assumes "\<forall>c \<in> set tr. stamped b s v t c"
  shows "\<forall>c \<in> set (fst (event_branch env b ci s v t tr)). stamped b s v t c"
proof (cases "b_type b = ct_event (COLLECTION_TYPE env)")
  case False
  then show ?thesis using identify_branch_stamped [OF assms] by (simp add: event_branch_def)
next
  case True
  show ?thesis
  proof (cases "normalize_url env (p_url (b_payload b)) (p_referrer (b_payload b))")
    case (Inl err)
    with True assms show ?thesis by (simp add: event_branch_def)
  next
    case (Inr n)
    let ?ev = "new_event b ci s v n"
    have ext: "\<forall>c \<in> set (tr @ [Call_saveEvent ?ev]). stamped b s v t c"
      using assms by (simp add: new_event_def)
    show ?thesis
    proof (cases "saveEvent env ?ev")
      case None
      with True Inr identify_branch_stamped [OF ext] show ?thesis
        by (simp add: event_branch_def Let_def)
    next
      case (Some err)
      with True Inr ext show ?thesis
        by (simp add: event_branch_def Let_def)
    qed
  qed
qed

lemma visit_stage_stamped:
  assumes "v = fst (visit_info env cache s (now_ms env div 1000))"
    and "t = snd (visit_info env cache s (now_ms env div 1000))"
    and "\<forall>c \<in> set tr. stamped b s v t c"
  shows "\<forall>c \<in> set (fst (visit_stage env b cache ci s tr)). stamped b s v t c"
  using event_branch_stamped [OF assms(3)] assms(1,2)
  by (simp add: visit_stage_def Let_def)

lemma find_session_stamped:
  assumes "s = derive_sessionId env b ci"
    and "v = fst (visit_info env cache s (now_ms env div 1000))"
    and "t = snd (visit_info env cache s (now_ms env div 1000))"
    and "\<forall>c \<in> set tr. stamped b s v t c"
  shows "\<forall>c \<in> set (fst (find_session env b cache ci tr)). stamped b s v t c"
proof -
  let ?w = "p_website (b_payload b)"
  let ?tr1 = "tr @ [Call_fetchSession ?w s]"
  let ?tr2 = "?tr1 @ [Call_createSession (new_session b ci s)]"
  have t1: "\<forall>c \<in> set ?tr1. stamped b s v t c" using assms(4) by simp
  have t2: "\<forall>c \<in> set ?tr2. stamped b s v t c" using assms(4) by (simp add: new_session_def)
  note vs = visit_stage_stamped [OF assms(2,3)]
  show ?thesis
    using vs [OF assms(4)] vs [OF t1] vs [OF t2] t2 assms(1)
    by (simp add: find_session_def Let_def split: option.split)
qed


lemma ip_block_stamped:
  assumes "ci = getClientInfo env req (b_payload b)"
    and "s = derive_sessionId env b ci"
    and "v = fst (visit_info env cache s (now_ms env div 1000))"
    and "t = snd (visit_info env cache s (now_ms env div 1000))"
    and "\<forall>c \<in> set tr. stamped b s v t c"
  shows "\<forall>c \<in> set (fst (ip_block env req b cache tr)). stamped b s v t c"
proof -
  let ?tr1 = "tr @ [Call_getClientInfo, Call_hasBlockedIp (ci_ip ci)]"
  have t1: "\<forall>c \<in> set ?tr1. stamped b s v t c" using assms(5) by simp
  show ?thesis
    using find_session_stamped [OF assms(2,3,4) t1] t1 assms(1)
    by (simp add: ip_block_def Let_def)
qed

lemma find_website_stamped:
  assumes "ci = getClientInfo env req (b_payload b)"
    and "s = derive_sessionId env b ci"
    and "v = fst (visit_info env cache s (now_ms env div 1000))"
    and "t = snd (visit_info env cache s (now_ms env div 1000))"
    and "\<forall>c \<in> set tr. stamped b s v t c"
  shows "\<forall>c \<in> set (fst (find_website env req b cache tr)). stamped b s v t c"
proof -
  let ?tr1 = "tr @ [Call_fetchWebsite (p_website (b_payload b))]"
  have t1: "\<forall>c \<in> set ?tr1. stamped b s v t c" using assms(5) by simp
  note ib = ip_block_stamped [OF assms(1,2,3,4)]
  show ?thesis
    using ib [OF assms(5)] ib [OF t1] t1
    by (simp add: find_website_def Let_def)
qed

lemma cache_check_trace: "\<forall>c \<in> set (snd (cache_check env req)). stamped b s v t c"
  by (simp add: cache_check_def split: option.split)

lemma POST_stamped:
  assumes "parseRequest env req = Inr b"
    and "cache = fst (cache_check env req)"
    and "ci = getClientInfo env req (b_payload b)"
    and "s = derive_sessionId env b ci"
    and "v = fst (visit_info env cache s (now_ms env div 1000))"
    and "t = snd (visit_info env cache s (now_ms env div 1000))"
  shows "\<forall>c \<in> set (fst (POST env req)). stamped b s v t c"
proof -
  note fw = find_website_stamped [OF assms(3,4,5,6)]
  have cc: "\<forall>c \<in> set (snd (cache_check env req)). stamped b s v t c"
    by (rule cache_check_trace)
  show ?thesis
  proof (cases "truthy (DISABLE_BOT_CHECK env)")
    case True
    have "\<forall>c \<in> set ([Call_parseRequest] @ snd (cache_check env req)). stamped b s v t c"
      using cc by simp
    from fw [OF this] True assms(1,2) show ?thesis
      by (simp add: POST_def)
  next
    case False
    have "\<forall>c \<in> set ([Call_isbot (user_agent req)] @ [Call_parseRequest]
              @ snd (cache_check env req)). stamped b s v t c"
      using cc by simp
    from fw [OF this] False assms(1,2) show ?thesis
      by (simp add: POST_def Let_def)
  qed
qed

subsection \<open>What the handler reads\<close>

text \<open>
  No stage after the cache check reads \<open>parseToken\<close>, no stage after the session lookup
  reads \<open>createSession\<close>, and the cached website and session ids are read through their
  truthiness only.
\<close>

lemma normalize_url_upd:
  "normalize_url (env\<lparr>parseToken := f, createSession := g\<rparr>) u r = normalize_url env u r"
  by (simp add: normalize_url_def decoded_parts_def Let_def split: option.split)

lemma visit_info_upd:
  "visit_info (env\<lparr>parseToken := f, createSession := g\<rparr>) cache s now = visit_info env cache s now"
  by (simp add: visit_info_def fresh_visitId_def Let_def split: option.split)

lemma issue_token_upd:
  "issue_token (env\<lparr>parseToken := f, createSession := g\<rparr>) b s v t tr = issue_token env b s v t tr"
  by (simp add: issue_token_def)

lemma identify_branch_upd:
  "identify_branch (env\<lparr>parseToken := f, createSession := g\<rparr>) b s v t tr
     = identify_branch env b s v t tr"
  by (simp add: identify_branch_def issue_token_upd Let_def split: option.split)

lemma event_branch_upd:
  "event_branch (env\<lparr>parseToken := f, createSession := g\<rparr>) b ci s v t tr
     = event_branch env b ci s v t tr"
  by (simp add: event_branch_def identify_branch_upd normalize_url_upd Let_def
      split: option.split sum.split)

lemma visit_stage_upd:
  "visit_stage (env\<lparr>parseToken := f, createSession := g\<rparr>) b cache ci s tr
     = visit_stage env b cache ci s tr"
  by (simp add: visit_stage_def event_branch_upd visit_info_upd)

lemma derive_sessionId_upd:
  "derive_sessionId (env\<lparr>parseToken := f, createSession := g\<rparr>) b ci = derive_sessionId env b ci"
  by (simp add: derive_sessionId_def)

lemma find_session_upd:
  "find_session (env\<lparr>parseToken := f\<rparr>) b cache ci tr = find_session env b cache ci tr"
  using visit_stage_upd [where env = env and f = f and g = "createSession env"]
    derive_sessionId_upd [where env = env and f = f and g = "createSession env"]
  by (simp add: find_session_def Let_def split: option.split)

lemma ip_block_upd:
  "ip_block (env\<lparr>parseToken := f\<rparr>) req b cache tr = ip_block env req b cache tr"
  by (simp add: ip_block_def find_session_upd Let_def)

lemma find_website_upd:
  "find_website (env\<lparr>parseToken := f\<rparr>) req b cache tr = find_website env req b cache tr"
  by (simp add: find_website_def ip_block_upd Let_def)



lemma visit_stage_cache:
  assumes "same_visit c c'"
  shows "visit_stage env b (Some c') ci s tr = visit_stage env b (Some c) ci s tr"
proof -
  have "visit_info env (Some c') s (now_ms env div 1000) = visit_info env (Some c) s (now_ms env div 1000)"
    using assms by (auto simp: visit_info_def same_visit_def Let_def)
  then show ?thesis by (simp add: visit_stage_def)
qed

lemma find_session_cache:
  assumes "same_visit c c'"
  shows "find_session env b (Some c') ci tr = find_session env b (Some c) ci tr"
proof -
  have "truthy (cache_field c_sessionId (Some c')) = truthy (cache_field c_sessionId (Some c))"
    using assms by (simp add: cache_field_def same_visit_def)
  then show ?thesis
    unfolding find_session_def by (simp only: visit_stage_cache [OF assms])
qed

lemma find_website_cache:
  assumes "same_visit c c'"
  shows "find_website env req b (Some c') tr = find_website env req b (Some c) tr"
proof -
  have "truthy (cache_field c_websiteId (Some c')) = truthy (cache_field c_websiteId (Some c))"
    using assms by (simp add: cache_field_def same_visit_def)
  then show ?thesis
    unfolding find_website_def ip_block_def by (simp only: find_session_cache [OF assms])
qed


lemma POST_cache:
  assumes "x_umami_cache req = Some h" and "parseToken env h (secret env) = Some c"
    and "same_visit c c'"
  shows "POST (env\<lparr>parseToken := \<lambda>token key. Some c'\<rparr>) req = POST env req"
proof (cases "h = []")
  case True
  with assms(1) show ?thesis
    by (simp add: POST_def cache_check_def find_website_upd Let_def split: sum.split)
next
  case False
  with assms(1,2) show ?thesis
    by (simp add: POST_def cache_check_def find_website_upd find_website_cache [OF assms(3)]
        Let_def split: sum.split)
qed

lemma cache_check_no_write: "\<forall>c \<in> set (snd (cache_check env req)). \<not> store_write c"
  by (simp add: cache_check_def split: option.split)

lemma visit_stage_upd_create:
  "visit_stage (env\<lparr>createSession := g\<rparr>) b cache ci s tr = visit_stage env b cache ci s tr"
  using visit_stage_upd [where env = env and f = "parseToken env" and g = g] by simp

lemma derive_sessionId_upd_create:
  "derive_sessionId (env\<lparr>createSession := g\<rparr>) b ci = derive_sessionId env b ci"
  by (simp add: derive_sessionId_def)

lemma cache_check_upd_create:
  "cache_check (env\<lparr>createSession := g\<rparr>) req = cache_check env req"
  by (simp add: cache_check_def split: option.split)

lemma cache_check_no_record: "\<forall>c \<in> set (snd (cache_check env req)). \<not> record_write c"
  by (simp add: cache_check_def split: option.split)

subsection \<open>Unfolding the model on concrete inputs\<close>

lemmas demo_defs = demo_env_def demo_request_def demo_event_def demo_payload_def demo_client_def
  demo_cache_def demo_identity_def demo_URL_def

lemmas handler_defs = POST_def cache_check_def find_website_def ip_block_def find_session_def
  visit_stage_def event_branch_def identify_branch_def issue_token_def new_event_def new_session_def
  derive_sessionId_def visit_info_def fresh_visitId_def cache_field_def normalize_url_def decoded_parts_def
  absolute_url_test_def

text \<open>The test of line 113 on three messages.\<close>

lemma unique_constraint_demo:
  "unique_constraint (JsError ''Unique constraint failed on the fields: (session_id)'')"
  by code_simp

lemma unique_constraint_demo_upper:
  "unique_constraint (JsError ''UNIQUE CONSTRAINT VIOLATION'')"
  by code_simp

lemma not_unique_constraint_demo:
  "\<not> unique_constraint (JsError ''Connection refused'')"
  by code_simp

subsection \<open>The documented examples\<close>

text \<open>
  The model on the inputs the specification lists for the normaliser, and on three paths
  for the trailing-slash policy (which is on in the concrete environment).
\<close>

lemma normalize_url_examples:
  "normalize_url (demo_env demo_event) (Some ''/foo/bar?x=1'')
       (Some ''https://www.example.com/page?ref=a'')
     = Inr \<lparr>urlPath = ''/foo/bar'', urlQuery = Some ''x=1'', referrerPath = Some ''/page'',
            referrerQuery = Some ''ref=a'', referrerDomain = ''example.com''\<rparr>"
  "normalize_url (demo_env demo_event) (Some ''/foo/bar/'') (Some ''/local'')
     = Inr \<lparr>urlPath = ''/foo/bar'', urlQuery = None, referrerPath = Some ''/local'',
            referrerQuery = None, referrerDomain = []\<rparr>"
  "normalize_url (demo_env demo_event) (Some ''/'') None
     = Inr \<lparr>urlPath = ''/'', urlQuery = None, referrerPath = None,
            referrerQuery = None, referrerDomain = []\<rparr>"
  "normalize_url (demo_env demo_event) None None
     = Inr \<lparr>urlPath = ''/'', urlQuery = None, referrerPath = None,
            referrerQuery = None, referrerDomain = []\<rparr>"
  by (simp_all add: normalize_url_def decoded_parts_def demo_env_def demo_URL_def
      absolute_url_test_def word_char_def slash_match_here_def line_terminator_def)

section \<open>The claims\<close>

text \<open>
  C1. A request that reaches session creation (it passed the bot filter, validation, the
  website check and the block list; the cache names no session, the session is not found
  and the columnar store is off) and whose \<open>createSession\<close> throws: when the lower-cased
  message contains \<open>unique constraint\<close>, the handler goes on to the visit stage, with
  the trace and outcome it would have had if the creation had succeeded; otherwise it
  answers with a server error and its trace holds no \<open>saveEvent\<close> and no
  \<open>saveSessionData\<close>.
\<close>

theorem session_creation_failure:
  assumes "\<not> (\<not> truthy (DISABLE_BOT_CHECK env) \<and> isbot env (user_agent req))"
    and "parseRequest env req = Inr b"
    and "cache = fst (cache_check env req)"
    and "truthy (cache_field c_websiteId cache) \<or> fetchWebsite env (p_website (b_payload b))"
    and "ci = getClientInfo env req (b_payload b)"
    and "\<not> hasBlockedIp env (ci_ip ci)"
    and "sid = derive_sessionId env b ci"
    and "\<not> truthy (cache_field c_sessionId cache)"
    and "\<not> fetchSession env (p_website (b_payload b)) sid"
    and "\<not> clickhouse_enabled env"
    and "createSession env (new_session b ci sid) = Some err"
  shows "(unique_constraint err \<longrightarrow>
            (\<exists>tr. POST env req = visit_stage env b cache ci sid tr) \<and>
            POST env req = POST (env\<lparr>createSession := \<lambda>s. None\<rparr>) req)
       \<and> (\<not> unique_constraint err \<longrightarrow>
            snd (POST env req) = Returned (ServerError err) \<and>
            (\<forall>c \<in> set (fst (POST env req)). \<not> record_write c))"
proof -
  let ?tr = "(if \<not> truthy (DISABLE_BOT_CHECK env) then [Call_isbot (user_agent req)] else [])
      @ [Call_parseRequest] @ snd (cache_check env req)
      @ (if \<not> truthy (cache_field c_websiteId cache)
         then [Call_fetchWebsite (p_website (b_payload b))] else [])
      @ [Call_getClientInfo, Call_hasBlockedIp (ci_ip ci),
         Call_fetchSession (p_website (b_payload b)) sid,
         Call_createSession (new_session b ci sid)]"
  have ok: "POST (env\<lparr>createSession := \<lambda>s. None\<rparr>) req = visit_stage env b cache ci sid ?tr"
    using assms(1-10)
    by (auto simp: POST_def find_website_def ip_block_def find_session_def Let_def
        cache_check_upd_create derive_sessionId_upd_create visit_stage_upd_create)
  have u: "POST env req = visit_stage env b cache ci sid ?tr" if "unique_constraint err"
    using assms that
    by (auto simp: POST_def find_website_def ip_block_def find_session_def Let_def)
  have f: "POST env req = (?tr, Returned (ServerError err))" if "\<not> unique_constraint err"
    using assms that
    by (auto simp: POST_def find_website_def ip_block_def find_session_def Let_def)
  have nw: "\<forall>c \<in> set ?tr. \<not> record_write c"
    using cache_check_no_record [of env req] by auto
  show ?thesis using ok u f nw by auto
qed

theorem session_creation_failure_witness:
  "POST ((demo_env demo_event)\<lparr>createSession := \<lambda>s.
            Some (JsError ''Unique constraint failed on the fields: (session_id)'')\<rparr>) demo_request
     = POST ((demo_env demo_event)\<lparr>createSession := \<lambda>s. None\<rparr>) demo_request
   \<and> snd (POST ((demo_env demo_event)\<lparr>createSession := \<lambda>s.
            Some (JsError ''Unique constraint failed on the fields: (session_id)'')\<rparr>) demo_request)
       = Returned (Json_cache ''site-1example.org203.0.113.7Mozilla/5.0salt'')
   \<and> snd (POST ((demo_env demo_event)\<lparr>createSession := \<lambda>s.
            Some (JsError ''Connection refused'')\<rparr>) demo_request)
       = Returned (ServerError (JsError ''Connection refused''))
   \<and> filter record_write (fst (POST ((demo_env demo_event)\<lparr>createSession := \<lambda>s.
            Some (JsError ''Connection refused'')\<rparr>) demo_request)) = []"
proof -
  let ?u = "JsError ''Unique constraint failed on the fields: (session_id)''"
  let ?f = "JsError ''Connection refused''"
  let ?U = "(demo_env demo_event)\<lparr>createSession := \<lambda>s. Some ?u\<rparr>"
  let ?F = "(demo_env demo_event)\<lparr>createSession := \<lambda>s. Some ?f\<rparr>"
  have a: "POST ?U demo_request = POST (?U\<lparr>createSession := \<lambda>s. None\<rparr>) demo_request"
    using session_creation_failure [of ?U demo_request demo_event _ _ _ ?u, OF _ _ refl _ refl _ refl]
      unique_constraint_demo
    by (simp add: demo_defs cache_check_def cache_field_def)
  have b: "snd (POST ?F demo_request) = Returned (ServerError ?f)
      \<and> (\<forall>c \<in> set (fst (POST ?F demo_request)). \<not> record_write c)"
    using session_creation_failure [of ?F demo_request demo_event _ _ _ ?f, OF _ _ refl _ refl _ refl]
      not_unique_constraint_demo
    by (simp add: demo_defs cache_check_def cache_field_def)
  have c: "snd (POST ((demo_env demo_event)\<lparr>createSession := \<lambda>s. None\<rparr>) demo_request)
      = Returned (Json_cache ''site-1example.org203.0.113.7Mozilla/5.0salt'')"
    by (simp add: demo_defs handler_defs Let_def)
  from a b c show ?thesis by (simp add: filter_empty_conv)
qed

text \<open>
  C2, as stated, fails. The handler reads the cached issue time with \<open>cache?.iat || now\<close>
  and the cached visit id with \<open>cache?.visitId || uuid(...)\<close>, so an issue time of 0 and
  an empty visit id count as absent. With a cached issue time of 0: at time 100 (inside the
  window) the issue time is not reused, it becomes 100; at time 1700000000 (outside the
  window) the visit id is not renewed, the cached one is kept. With an empty cached visit
  id inside the window, the visit id is not reused.
\<close>

theorem visit_reuse_counterexample:
  "(100::int) - c_iat (demo_cache\<lparr>c_iat := 0\<rparr>) \<le> 1800
   \<and> snd (visit_info (demo_env demo_event) (Some (demo_cache\<lparr>c_iat := 0\<rparr>)) ''session-1'' 100)
       \<noteq> c_iat (demo_cache\<lparr>c_iat := 0\<rparr>)
   \<and> (1700000000::int) - c_iat (demo_cache\<lparr>c_iat := 0\<rparr>) > 1800
   \<and> fst (visit_info (demo_env demo_event) (Some (demo_cache\<lparr>c_iat := 0\<rparr>)) ''session-1'' 1700000000)
       \<noteq> uuid (demo_env demo_event) [Some ''session-1'', Some (visitSalt (demo_env demo_event))]
   \<and> (1700000000::int) - c_iat (demo_cache\<lparr>c_visitId := []\<rparr>) \<le> 1800
   \<and> fst (visit_info (demo_env demo_event) (Some (demo_cache\<lparr>c_visitId := []\<rparr>)) ''session-1'' 1700000000)
       \<noteq> c_visitId (demo_cache\<lparr>c_visitId := []\<rparr>)"
  by (simp add: visit_info_def fresh_visitId_def demo_defs)

text \<open>
  C2, amended. For a request carrying a decoded cache whose visit id is not empty and
  whose issue time \<open>T\<close> is not 0, at time \<open>now\<close>: when \<open>now - T \<le> 1800\<close> the cached
  visit id and issue time are reused unchanged; when \<open>now - T > 1800\<close> the visit id is
  \<open>uuid(sessionId, salt)\<close> and the issue time is \<open>now\<close>. These are the values put into
  the new token and the visit id put into the event record.
\<close>

theorem visit_window:
  assumes "parseRequest env req = Inr b"
    and "fst (cache_check env req) = Some c"
    and "c_iat c \<noteq> 0"
    and "c_visitId c \<noteq> []"
    and "now = now_ms env div 1000"
    and "ci = getClientInfo env req (b_payload b)"
    and "sid = uuid env [Some (p_website (b_payload b)), p_hostname (b_payload b),
                         ci_ip ci, ci_userAgent ci]"
    and "v = (if now - c_iat c \<le> 1800 then c_visitId c
              else uuid env [Some sid, Some (visitSalt env)])"
    and "t = (if now - c_iat c \<le> 1800 then c_iat c else now)"
  shows "visit_info env (Some c) sid now = (v, t)
       \<and> (\<forall>cl. Call_createToken cl \<in> set (fst (POST env req)) \<longrightarrow>
             c_visitId cl = v \<and> c_iat cl = t)
       \<and> (\<forall>ev. Call_saveEvent ev \<in> set (fst (POST env req)) \<longrightarrow> e_visitId ev = v)"
proof -
  have vi: "visit_info env (Some c) sid now = (v, t)"
    using assms(3,4,8,9) by (simp add: visit_info_def fresh_visitId_def)
  have sid: "sid = derive_sessionId env b ci"
    using assms(7) by (simp add: derive_sessionId_def)
  have v: "v = fst (visit_info env (fst (cache_check env req)) sid (now_ms env div 1000))"
    and t: "t = snd (visit_info env (fst (cache_check env req)) sid (now_ms env div 1000))"
    using vi assms(2,5) by simp_all
  note st = POST_stamped [OF assms(1) refl assms(6) sid v t, rule_format]
  have "c_visitId cl = v \<and> c_iat cl = t"
    if "Call_createToken cl \<in> set (fst (POST env req))" for cl
    using st [OF that] by simp
  moreover have "e_visitId ev = v"
    if "Call_saveEvent ev \<in> set (fst (POST env req))" for ev
    using st [OF that] by simp
  ultimately show ?thesis using vi by blast
qed

theorem visit_window_witness:
  "visit_info (demo_env demo_event) (Some demo_cache)
       ''site-1example.org203.0.113.7Mozilla/5.0'' 1700000000 = (''visit-0'', 1699999000)
   \<and> Call_createToken \<lparr>c_websiteId = ''site-1'',
          c_sessionId = ''site-1example.org203.0.113.7Mozilla/5.0'',
          c_visitId = ''visit-0'', c_iat = 1699999000\<rparr>
        \<in> set (fst (POST (demo_env demo_event) (demo_request\<lparr>x_umami_cache := Some ''token''\<rparr>)))
   \<and> visit_info ((demo_env demo_event)\<lparr>now_ms := 1700000801000\<rparr>) (Some demo_cache)
       ''site-1example.org203.0.113.7Mozilla/5.0'' 1700000801
       = (''site-1example.org203.0.113.7Mozilla/5.0salt'', 1700000801)"
proof -
  let ?E = "demo_env demo_event"
  let ?L = "(demo_env demo_event)\<lparr>now_ms := 1700000801000\<rparr>"
  let ?R = "demo_request\<lparr>x_umami_cache := Some ''token''\<rparr>"
  let ?s = "''site-1example.org203.0.113.7Mozilla/5.0''"
  have p: "parseRequest ?E ?R = Inr demo_event" "parseRequest ?L ?R = Inr demo_event"
    by (simp_all add: demo_env_def)
  have c: "fst (cache_check ?E ?R) = Some demo_cache" "fst (cache_check ?L ?R) = Some demo_cache"
    by (simp_all add: demo_env_def demo_request_def cache_check_def)
  have i: "c_iat demo_cache \<noteq> 0" and n: "c_visitId demo_cache \<noteq> []"
    by (simp_all add: demo_cache_def)
  have t: "(1700000000::int) = now_ms ?E div 1000" "(1700000801::int) = now_ms ?L div 1000"
    by (simp_all add: demo_env_def)
  have g: "demo_client = getClientInfo ?E ?R (b_payload demo_event)"
    "demo_client = getClientInfo ?L ?R (b_payload demo_event)"
    by (simp_all add: demo_env_def)
  have s: "?s = uuid ?E [Some (p_website (b_payload demo_event)), p_hostname (b_payload demo_event),
                         ci_ip demo_client, ci_userAgent demo_client]"
    "?s = uuid ?L [Some (p_website (b_payload demo_event)), p_hostname (b_payload demo_event),
                         ci_ip demo_client, ci_userAgent demo_client]"
    by (simp_all add: demo_defs)
  have v: "''visit-0'' = (if (1700000000::int) - c_iat demo_cache \<le> 1800 then c_visitId demo_cache
              else uuid ?E [Some ?s, Some (visitSalt ?E)])"
    "''site-1example.org203.0.113.7Mozilla/5.0salt''
       = (if (1700000801::int) - c_iat demo_cache \<le> 1800 then c_visitId demo_cache
              else uuid ?L [Some ?s, Some (visitSalt ?L)])"
    by (simp_all add: demo_cache_def demo_env_def)
  have w: "(1699999000::int) = (if (1700000000::int) - c_iat demo_cache \<le> 1800 then c_iat demo_cache else 1700000000)"
    "(1700000801::int) = (if (1700000801::int) - c_iat demo_cache \<le> 1800 then c_iat demo_cache else 1700000801)"
    by (simp_all add: demo_cache_def)
  have m: "Call_createToken \<lparr>c_websiteId = ''site-1'', c_sessionId = ?s,
        c_visitId = ''visit-0'', c_iat = 1699999000\<rparr> \<in> set (fst (POST ?E ?R))"
    by (simp add: demo_defs handler_defs Let_def)
  from visit_window [OF p(1) c(1) i n t(1) g(1) s(1) v(1) w(1)]
    visit_window [OF p(2) c(2) i n t(2) g(2) s(2) v(2) w(2)] m
  show ?thesis by blast
qed

text \<open>
  C3. The code departs from the claim: line 142 calls \<open>new URL(referrer)\<close> outside any
  \<open>try\<close>, guarded only by the pattern test of line 141, which is looser than the URL
  parser. The referrer \<open>http://a b/\<close> passes the test (\<open>http\<close>, \<open>://\<close>, \<open>a\<close>) and
  is rejected by the parser (a space in the host), so the normalisation throws; the handler
  ends with that exception, after it has already created the session and before it saves
  the event.
\<close>

theorem referrer_unparseable_throws:
  "normalize_url (demo_env demo_bad_referrer) (Some ''/foo/bar?x=1'') (Some ''http://a b/'')
     = Inl (JsError ''Invalid URL'')
   \<and> POST (demo_env demo_bad_referrer) demo_request
     = ([Call_isbot (Some ''Mozilla/5.0''), Call_parseRequest, Call_fetchWebsite ''site-1'',
         Call_getClientInfo, Call_hasBlockedIp (Some ''203.0.113.7''),
         Call_fetchSession ''site-1'' ''site-1example.org203.0.113.7Mozilla/5.0'',
         Call_createSession (new_session demo_bad_referrer demo_client
                               ''site-1example.org203.0.113.7Mozilla/5.0'')],
        Thrown (JsError ''Invalid URL''))"
  by (simp add: demo_defs demo_bad_referrer_def handler_defs Let_def word_char_def)

text \<open>
  C4. The code departs from the claim: \<open>hostname.replace(/www\./, '')\<close> is not anchored,
  so it removes the first \<open>www.\<close> wherever it stands. For the referrer
  \<open>https://awww.example.com/\<close> the domain becomes \<open>aexample.com\<close>, for
  \<open>https://blog.www.example.com/\<close> it becomes \<open>blog.example.com\<close>.
\<close>

theorem referrer_domain_inner_www:
  "normalize_url (demo_env demo_event) (Some ''/'') (Some ''https://awww.example.com/'')
     = Inr \<lparr>urlPath = ''/'', urlQuery = None, referrerPath = Some ''/'',
            referrerQuery = Some [], referrerDomain = ''aexample.com''\<rparr>
   \<and> normalize_url (demo_env demo_event) (Some ''/'') (Some ''https://blog.www.example.com/'')
     = Inr \<lparr>urlPath = ''/'', urlQuery = None, referrerPath = Some ''/'',
            referrerQuery = Some [], referrerDomain = ''blog.example.com''\<rparr>"
  by (simp add: normalize_url_def decoded_parts_def demo_env_def demo_URL_def
      absolute_url_test_def word_char_def slash_match_here_def)

text \<open>
  C5. The code departs from the claim: \<open>split('?')\<close> cuts at every question mark and
  the destructuring keeps the first two pieces, so the query ends at the second question
  mark. For the url \<open>/p?a=1?b=2\<close> the query is \<open>a=1\<close>, not \<open>a=1?b=2\<close>.
\<close>

theorem url_query_second_question_mark:
  "normalize_url (demo_env demo_event) (Some ''/p?a=1?b=2'') None
     = Inr \<lparr>urlPath = ''/p'', urlQuery = Some ''a=1'', referrerPath = None,
            referrerQuery = None, referrerDomain = []\<rparr>"
  by (simp add: normalize_url_def decoded_parts_def demo_env_def demo_URL_def
      absolute_url_test_def word_char_def slash_match_here_def)




text \<open>
  C7. A request whose user agent is classified as a bot, while \<open>DISABLE_BOT_CHECK\<close> is
  unset, gets the neutral response \<open>{ beep: 'boop' }\<close>; the only collaborator called is
  the bot classifier: no client-info resolution, no block list, no store.
\<close>

theorem bot_request_neutral:
  assumes "DISABLE_BOT_CHECK env = None" and "isbot env (user_agent req)"
  shows "POST env req = ([Call_isbot (user_agent req)], Returned Json_beep_boop)"
  using assms by (simp add: POST_def)

theorem bot_request_neutral_witness:
  "DISABLE_BOT_CHECK (demo_env demo_event) = None \<and>
   isbot (demo_env demo_event) (user_agent (demo_request\<lparr>user_agent := Some ''Googlebot''\<rparr>)) \<and>
   POST (demo_env demo_event) (demo_request\<lparr>user_agent := Some ''Googlebot''\<rparr>)
     = ([Call_isbot (Some ''Googlebot'')], Returned Json_beep_boop)"
  using bot_request_neutral [of "demo_env demo_event" "demo_request\<lparr>user_agent := Some ''Googlebot''\<rparr>"]
  by (simp add: demo_env_def demo_request_def)

text \<open>
  C8. A request that gets as far as the block list (not stopped by the bot filter, a valid
  body, a known website) and whose resolved IP is blocked is answered with \<open>forbidden\<close>;
  its trace holds no call to \<open>createSession\<close>, \<open>saveEvent\<close> or \<open>saveSessionData\<close>.
\<close>

theorem blocked_ip_forbidden:
  assumes "\<not> (\<not> truthy (DISABLE_BOT_CHECK env) \<and> isbot env (user_agent req))"
    and "parseRequest env req = Inr b"
    and "truthy (cache_field c_websiteId (fst (cache_check env req)))
           \<or> fetchWebsite env (p_website (b_payload b))"
    and "hasBlockedIp env (ci_ip (getClientInfo env req (b_payload b)))"
  shows "snd (POST env req) = Returned Forbidden
           \<and> (\<forall>c \<in> set (fst (POST env req)). \<not> store_write c)"
  using assms cache_check_no_write [of env req]
  by (auto simp: POST_def find_website_def ip_block_def Let_def)

theorem blocked_ip_forbidden_witness:
  "POST ((demo_env demo_event)\<lparr>getClientInfo := \<lambda>r p. demo_client\<lparr>ci_ip := Some ''198.51.100.1''\<rparr>\<rparr>)
        demo_request
     = ([Call_isbot (Some ''Mozilla/5.0''), Call_parseRequest, Call_fetchWebsite ''site-1'',
         Call_getClientInfo, Call_hasBlockedIp (Some ''198.51.100.1'')],
        Returned Forbidden)"
  using blocked_ip_forbidden [of "(demo_env demo_event)\<lparr>getClientInfo := \<lambda>r p. demo_client\<lparr>ci_ip := Some ''198.51.100.1''\<rparr>\<rparr>"
      demo_request demo_event]
  by (simp add: demo_env_def demo_request_def demo_event_def demo_payload_def demo_client_def
      POST_def find_website_def ip_block_def cache_check_def cache_field_def)

text \<open>
  C9. The code departs from the claim: in \<open>/(.+)\/$/\<close> the dot does not match a line
  terminator, so a path whose last character before the final slash is a line feed keeps
  its trailing slash although the policy is on (in all other cases the closed form
  \<open>replace_trailing_slash_eq\<close> above agrees with the claim).
\<close>

theorem trailing_slash_after_newline:
  "REMOVE_TRAILING_SLASH (demo_env demo_event) = Some ''1''
   \<and> normalize_url (demo_env demo_event) (Some (''/a'' @ [CHR 0x0A] @ ''/'')) None
     = Inr \<lparr>urlPath = ''/a'' @ [CHR 0x0A] @ ''/'', urlQuery = None, referrerPath = None,
            referrerQuery = None, referrerDomain = []\<rparr>"
  by (simp add: normalize_url_def decoded_parts_def demo_env_def demo_URL_def
      absolute_url_test_def word_char_def slash_match_here_def line_terminator_def)

text \<open>
  C10. Every event record, session-data record and token of a request carries the website
  id of the payload and the session id \<open>uuid(websiteId, hostname, ip, userAgent)\<close> computed
  on this request. The website and session ids of a decoded cache are only tested for
  truthiness: replacing them by any other ids that are empty in the same places changes
  neither the trace nor the outcome.
\<close>

theorem persisted_ids_from_request:
  assumes "parseRequest env req = Inr b"
    and "ci = getClientInfo env req (b_payload b)"
    and "sid = uuid env [Some (p_website (b_payload b)), p_hostname (b_payload b),
                         ci_ip ci, ci_userAgent ci]"
  shows "(\<forall>ev. Call_saveEvent ev \<in> set (fst (POST env req)) \<longrightarrow>
            e_websiteId ev = p_website (b_payload b) \<and> e_sessionId ev = sid)
       \<and> (\<forall>sd. Call_saveSessionData sd \<in> set (fst (POST env req)) \<longrightarrow>
            d_websiteId sd = p_website (b_payload b) \<and> d_sessionId sd = sid)
       \<and> (\<forall>cl. Call_createToken cl \<in> set (fst (POST env req)) \<longrightarrow>
            c_websiteId cl = p_website (b_payload b) \<and> c_sessionId cl = sid)
       \<and> (\<forall>h c c'. x_umami_cache req = Some h \<and> parseToken env h (secret env) = Some c
              \<and> same_visit c c' \<longrightarrow>
            POST (env\<lparr>parseToken := \<lambda>token key. Some c'\<rparr>) req = POST env req)"
proof -
  have sid: "sid = derive_sessionId env b ci"
    using assms(3) by (simp add: derive_sessionId_def)
  note st = POST_stamped [OF assms(1) refl assms(2) sid refl refl, rule_format]
  have "e_websiteId ev = p_website (b_payload b) \<and> e_sessionId ev = sid"
    if "Call_saveEvent ev \<in> set (fst (POST env req))" for ev
    using st [OF that] by simp
  moreover have "d_websiteId sd = p_website (b_payload b) \<and> d_sessionId sd = sid"
    if "Call_saveSessionData sd \<in> set (fst (POST env req))" for sd
    using st [OF that] by simp
  moreover have "c_websiteId cl = p_website (b_payload b) \<and> c_sessionId cl = sid"
    if "Call_createToken cl \<in> set (fst (POST env req))" for cl
    using st [OF that] by simp
  moreover have "POST (env\<lparr>parseToken := \<lambda>token key. Some c'\<rparr>) req = POST env req"
    if "x_umami_cache req = Some h \<and> parseToken env h (secret env) = Some c \<and> same_visit c c'"
    for h c c'
    using that POST_cache by blast
  ultimately show ?thesis by blast
qed

theorem persisted_ids_from_request_witness:
  "Call_createToken \<lparr>c_websiteId = ''site-1'',
        c_sessionId = ''site-1example.org203.0.113.7Mozilla/5.0'',
        c_visitId = ''visit-0'', c_iat = 1699999000\<rparr>
     \<in> set (fst (POST (demo_env demo_event) (demo_request\<lparr>x_umami_cache := Some ''token''\<rparr>)))
   \<and> POST ((demo_env demo_event)\<lparr>parseToken := \<lambda>token key.
              Some (demo_cache\<lparr>c_websiteId := ''x'', c_sessionId := ''y''\<rparr>)\<rparr>)
          (demo_request\<lparr>x_umami_cache := Some ''token''\<rparr>)
      = POST (demo_env demo_event) (demo_request\<lparr>x_umami_cache := Some ''token''\<rparr>)"
proof -
  let ?E = "demo_env demo_event"
  let ?R = "demo_request\<lparr>x_umami_cache := Some ''token''\<rparr>"
  have p: "parseRequest ?E ?R = Inr demo_event" by (simp add: demo_env_def)
  have s: "''site-1example.org203.0.113.7Mozilla/5.0''
      = uuid ?E [Some (p_website (b_payload demo_event)), p_hostname (b_payload demo_event),
                 ci_ip (getClientInfo ?E ?R (b_payload demo_event)),
                 ci_userAgent (getClientInfo ?E ?R (b_payload demo_event))]"
    by (simp add: demo_defs)
  have h: "x_umami_cache ?R = Some ''token'' \<and> parseToken ?E ''token'' (secret ?E) = Some demo_cache
      \<and> same_visit demo_cache (demo_cache\<lparr>c_websiteId := ''x'', c_sessionId := ''y''\<rparr>)"
    by (simp add: demo_defs same_visit_def)
  have w: "p_website (b_payload demo_event) = ''site-1''" by (simp add: demo_defs)
  have m: "Call_createToken \<lparr>c_websiteId = ''site-1'',
        c_sessionId = ''site-1example.org203.0.113.7Mozilla/5.0'',
        c_visitId = ''visit-0'', c_iat = 1699999000\<rparr> \<in> set (fst (POST ?E ?R))"
    by (simp add: demo_defs handler_defs Let_def)
  from persisted_ids_from_request [OF p refl s] h m show ?thesis
    unfolding w by blast
qed

end
